theory Spec2Isabelle
  imports Main "HOL-Library.Word" "HOL-Library.Sublist" "HOL-Library.AList"
begin

unbundle bit_operations_syntax

section \<open>Constants and types of modbus-interface.c\<close>

text \<open>
  \<open>EINVAL\<close> comes from \<open>errno.h\<close>; its Linux value is 22. The C \<open>int\<close> values of this
  file (return codes, \<open>errno\<close>, the width selector) stay far from the limits of the type, so
  they are modelled as \<open>int\<close>.
\<close>

definition EINVAL :: int where
  "EINVAL = 22"

definition TCP_PREFIX :: string where
  "TCP_PREFIX = ''tcp://''"

definition TCP_PREFIX_SIZE :: nat where
  "TCP_PREFIX_SIZE = 6"

definition RTU_PREFIX :: string where
  "RTU_PREFIX = ''serial://''"

definition RTU_PREFIX_SIZE :: nat where
  "RTU_PREFIX_SIZE = 9"

text \<open>\<open>RECONNECT_TIMEOUT\<close> is in seconds (the unit of \<open>l_timeout_modify\<close>).\<close>

definition RECONNECT_TIMEOUT :: nat where
  "RECONNECT_TIMEOUT = 5"

text \<open>The enumerators of \<open>enum driver_type\<close> as the \<open>int\<close> values C gives them.\<close>

definition TCP :: int where
  "TCP = 0"

definition RTU :: int where
  "RTU = 1"

text \<open>The enumerators of \<open>enum modbus_types_offset\<close>.\<close>

definition TYPE_BOOL :: int where
  "TYPE_BOOL = 1"

definition TYPE_BYTE :: int where
  "TYPE_BYTE = 8"

definition TYPE_U16 :: int where
  "TYPE_U16 = 16"

definition TYPE_U32 :: int where
  "TYPE_U32 = 32"

definition TYPE_U64 :: int where
  "TYPE_U64 = 64"

type_synonym byte = "8 word"

text \<open>A C pointer is \<open>None\<close> (\<open>NULL\<close>) or the address of an object.\<close>

type_synonym ptr = "nat option"

section \<open>The Driver Selector: \<open>parse_url\<close>\<close>

text \<open>
  A C string is the list of its characters; reading at or past its end yields the
  terminating NUL. \<open>strncmp\<close> is the C library function: it compares at most \<open>n\<close>
  characters as unsigned bytes and stops at the first difference or at a NUL.
\<close>

definition NUL :: char where
  "NUL = CHR 0x00"

fun char_at_head :: "string \<Rightarrow> char" where
  "char_at_head [] = NUL"
| "char_at_head (c # cs) = c"

fun strncmp :: "string \<Rightarrow> string \<Rightarrow> nat \<Rightarrow> int" where
  "strncmp s1 s2 0 = 0"
| "strncmp s1 s2 (Suc n) =
     (let c1 = char_at_head s1; c2 = char_at_head s2
      in if c1 \<noteq> c2 then int (of_char c1) - int (of_char c2)
         else if c1 = NUL then 0
         else strncmp (tl s1) (tl s2) n)"

definition parse_url :: "string \<Rightarrow> int" where
  "parse_url url =
     (if strncmp url TCP_PREFIX TCP_PREFIX_SIZE = 0 then TCP
      else if strncmp url RTU_PREFIX RTU_PREFIX_SIZE = 0 then RTU
      else - EINVAL)"

section \<open>The Register Reader: \<open>modbus_read_data\<close>\<close>

text \<open>
  \<open>struct modbus_driver\<close> is declared in \<open>modbus-driver.h\<close> and its two instances
  \<open>tcp\<close> and \<open>rtu\<close> are defined outside this file, so the read primitives are parameters.
  A primitive receives the context pointer, the register address and the value of
  \<open>errno\<close> at the call; it answers with its return code, the content of its destination
  buffer when it returns, and the value of \<open>errno\<close> when it returns.
\<close>

type_synonym 'v read_prim = "ptr \<Rightarrow> int \<Rightarrow> int \<Rightarrow> int \<times> 'v \<times> int"

record modbus_driver =
  read_bool :: "bool read_prim"
  read_byte :: "byte list read_prim"
  read_u16 :: "16 word read_prim"
  read_u32 :: "32 word read_prim"
  read_u64 :: "64 word read_prim"

text \<open>The calls made through \<open>connection_interface\<close>, in the order they happen.\<close>

datatype prim_call =
    Call_read_bool ptr int
  | Call_read_byte ptr int
  | Call_read_u16 ptr int
  | Call_read_u32 ptr int
  | Call_read_u64 ptr int

text \<open>
  \<open>union modbus_types\<close> is eight bytes, every member at offset 0. The union is modelled
  by its bytes; a member of \<open>n\<close> bytes written through a pointer to it replaces the first
  \<open>n\<close> bytes (least significant byte first) and leaves the others alone.
\<close>

definition le_bytes :: "nat \<Rightarrow> 'a::len word \<Rightarrow> byte list" where
  "le_bytes n w = map (\<lambda>k. ucast (drop_bit (8 * k) w)) [0..<n]"

definition store_member :: "byte list \<Rightarrow> byte list \<Rightarrow> byte list" where
  "store_member bs tmp = bs @ drop (length bs) tmp"

text \<open>
  One round of the packing loop, \<open>tmp.val_byte |= byte_tmp[i] << i\<close>: both operands are
  promoted to \<open>int\<close>, and the assignment truncates the result to \<open>uint8_t\<close>.
\<close>

definition pack_step :: "byte list \<Rightarrow> nat \<Rightarrow> byte \<Rightarrow> byte" where
  "pack_step byte_tmp i val_byte =
     ucast ((ucast val_byte :: 32 word) OR push_bit i (ucast (byte_tmp ! i) :: 32 word))"

definition pack_coils :: "byte list \<Rightarrow> byte \<Rightarrow> byte" where
  "pack_coils byte_tmp val_byte = fold (pack_step byte_tmp) [0..<8] val_byte"

record switch_result =
  sw_rc :: int
  sw_tmp :: "byte list"
  sw_errno :: int
  sw_calls :: "prim_call list"

text \<open>
  The \<open>memset\<close> and the \<open>switch\<close> of \<open>modbus_read_data\<close>: \<open>ci\<close> is the global
  \<open>connection_interface\<close>, \<open>ctx\<close> the global \<open>modbus_ctx\<close>, \<open>e\<close> the value of \<open>errno\<close> on
  entry.
\<close>

definition read_switch :: "modbus_driver \<Rightarrow> ptr \<Rightarrow> int \<Rightarrow> int \<Rightarrow> int \<Rightarrow> switch_result" where
  "read_switch ci ctx e reg_addr bit_offset =
     (let tmp = replicate 8 (0 :: byte) in
      if bit_offset = TYPE_BOOL then
        (case read_bool ci ctx reg_addr e of (rc, v, e') \<Rightarrow>
           \<lparr>sw_rc = rc, sw_tmp = store_member [of_bool v] tmp, sw_errno = e',
            sw_calls = [Call_read_bool ctx reg_addr]\<rparr>)
      else if bit_offset = TYPE_BYTE then
        (case read_byte ci ctx reg_addr e of (rc, byte_tmp, e') \<Rightarrow>
           \<lparr>sw_rc = rc, sw_tmp = store_member [pack_coils byte_tmp (hd tmp)] tmp, sw_errno = e',
            sw_calls = [Call_read_byte ctx reg_addr]\<rparr>)
      else if bit_offset = TYPE_U16 then
        (case read_u16 ci ctx reg_addr e of (rc, v, e') \<Rightarrow>
           \<lparr>sw_rc = rc, sw_tmp = store_member (le_bytes 2 v) tmp, sw_errno = e',
            sw_calls = [Call_read_u16 ctx reg_addr]\<rparr>)
      else if bit_offset = TYPE_U32 then
        (case read_u32 ci ctx reg_addr e of (rc, v, e') \<Rightarrow>
           \<lparr>sw_rc = rc, sw_tmp = store_member (le_bytes 4 v) tmp, sw_errno = e',
            sw_calls = [Call_read_u32 ctx reg_addr]\<rparr>)
      else if bit_offset = TYPE_U64 then
        (case read_u64 ci ctx reg_addr e of (rc, v, e') \<Rightarrow>
           \<lparr>sw_rc = rc, sw_tmp = store_member (le_bytes 8 v) tmp, sw_errno = e',
            sw_calls = [Call_read_u64 ctx reg_addr]\<rparr>)
      else \<lparr>sw_rc = - EINVAL, sw_tmp = tmp, sw_errno = e, sw_calls = []\<rparr>)"

record read_result =
  rd_rc :: int
  rd_out :: "byte list"
  rd_errno :: int
  rd_calls :: "prim_call list"

text \<open>
  \<open>out\<close> is the object the caller's pointer refers to, as its bytes (a
  \<open>knot_value_type\<close>, declared in \<open>knot_protocol.h\<close>); \<open>memcpy\<close> replaces its first
  \<open>sizeof(tmp) = 8\<close> bytes. Logging is left out.
\<close>

definition modbus_read_data ::
  "modbus_driver \<Rightarrow> ptr \<Rightarrow> int \<Rightarrow> int \<Rightarrow> int \<Rightarrow> byte list \<Rightarrow> read_result" where
  "modbus_read_data ci ctx e reg_addr bit_offset out =
     (let r = read_switch ci ctx e reg_addr bit_offset in
      if sw_rc r < 0 then
        \<lparr>rd_rc = - sw_errno r, rd_out = out, rd_errno = sw_errno r, rd_calls = sw_calls r\<rparr>
      else
        \<lparr>rd_rc = sw_rc r, rd_out = sw_tmp r @ drop 8 out, rd_errno = sw_errno r,
         rd_calls = sw_calls r\<rparr>)"

section \<open>The Connection Manager\<close>

subsection \<open>Module state and the objects of the libraries\<close>

text \<open>
  The module keeps its state in six globals. The objects they point to belong to the
  event-loop library (timeouts and I/O watches) and to the Modbus library (contexts); the
  model keeps the live objects of each kind, keyed by address, next to the globals. A
  pointer whose address is not among the live objects is dangling, and handing it to a
  library function is a fault.
\<close>

datatype fault = Use_after_free | Null_call

text \<open>Which of the two driver tables \<open>connection_interface\<close> is a copy of.\<close>

datatype driver_table = tcp | rtu

text \<open>A timeout: pending with the milliseconds left, or idle; and its \<open>user_data\<close>.\<close>

record l_timeout =
  t_armed :: "nat option"
  t_user_data :: ptr

text \<open>
  An I/O watch: its descriptor, and the \<open>user_data\<close> of the disconnect handler when
  \<open>on_disconnected\<close> has been registered on it.
\<close>

record l_io =
  io_fd :: int
  io_disconnect :: "ptr option"

text \<open>A call of one of the caller's callbacks: the function and its argument.\<close>

datatype cb_call = Connected nat ptr | Disconnected nat ptr

record sys =
  connection_interface :: "driver_table option"
  connect_to :: ptr
  modbus_io :: ptr
  modbus_ctx :: ptr
  conn_cb :: ptr
  disconn_cb :: ptr
  timeouts :: "(nat \<times> l_timeout) list"
  ios :: "(nat \<times> l_io) list"
  ctxs :: "nat set"
  next_addr :: nat
  errno :: int
  cb_calls :: "cb_call list"

text \<open>Before \<open>main\<close> runs: the globals are zero and no object exists.\<close>

definition sys0 :: sys where
  "sys0 = \<lparr>connection_interface = None, connect_to = None, modbus_io = None,
            modbus_ctx = None, conn_cb = None, disconn_cb = None,
            timeouts = [], ios = [], ctxs = {}, next_addr = 1, errno = 0, cb_calls = []\<rparr>"

definition then_do :: "fault + 'a \<Rightarrow> ('a \<Rightarrow> fault + 'b) \<Rightarrow> fault + 'b" where
  "then_do m f = (case m of Inl e \<Rightarrow> Inl e | Inr x \<Rightarrow> f x)"

subsection \<open>The event-loop library\<close>

text \<open>
  \<open>l_timeout_create_ms\<close> makes a one-shot timeout pending in \<open>ms\<close> milliseconds, or
  returns \<open>NULL\<close> when the loop cannot set it up (\<open>ok\<close> is false).
\<close>

definition l_timeout_create_ms :: "bool \<Rightarrow> nat \<Rightarrow> ptr \<Rightarrow> sys \<Rightarrow> ptr \<times> sys" where
  "l_timeout_create_ms ok ms user_data s =
     (if ok then
        (Some (next_addr s),
         s\<lparr>timeouts := AList.update (next_addr s)
              \<lparr>t_armed = Some ms, t_user_data = user_data\<rparr> (timeouts s),
           next_addr := Suc (next_addr s)\<rparr>)
      else (None, s))"

text \<open>\<open>l_timeout_modify\<close> takes seconds; it ignores \<open>NULL\<close>.\<close>

definition l_timeout_modify :: "ptr \<Rightarrow> nat \<Rightarrow> sys \<Rightarrow> fault + sys" where
  "l_timeout_modify to seconds s =
     (case to of
        None \<Rightarrow> Inr s
      | Some t \<Rightarrow>
          (case map_of (timeouts s) t of
             None \<Rightarrow> Inl Use_after_free
           | Some T \<Rightarrow>
               Inr (s\<lparr>timeouts :=
                        AList.update t (T\<lparr>t_armed := Some (1000 * seconds)\<rparr>) (timeouts s)\<rparr>)))"

definition l_timeout_remove :: "ptr \<Rightarrow> sys \<Rightarrow> fault + sys" where
  "l_timeout_remove to s =
     (case to of
        None \<Rightarrow> Inr s
      | Some t \<Rightarrow>
          (case map_of (timeouts s) t of
             None \<Rightarrow> Inl Use_after_free
           | Some T \<Rightarrow> Inr (s\<lparr>timeouts := AList.delete t (timeouts s)\<rparr>)))"

text \<open>
  \<open>l_io_new\<close> returns \<open>NULL\<close> for a negative descriptor or when the loop cannot watch it.
\<close>

definition l_io_new :: "int \<Rightarrow> bool \<Rightarrow> sys \<Rightarrow> ptr \<times> sys" where
  "l_io_new fd ok s =
     (if fd < 0 \<or> \<not> ok then (None, s)
      else
        (Some (next_addr s),
         s\<lparr>ios := AList.update (next_addr s) \<lparr>io_fd = fd, io_disconnect = None\<rparr> (ios s),
           next_addr := Suc (next_addr s)\<rparr>))"

definition l_io_set_disconnect_handler :: "ptr \<Rightarrow> ptr \<Rightarrow> sys \<Rightarrow> fault + (bool \<times> sys)" where
  "l_io_set_disconnect_handler io user_data s =
     (case io of
        None \<Rightarrow> Inr (False, s)
      | Some i \<Rightarrow>
          (case map_of (ios s) i of
             None \<Rightarrow> Inl Use_after_free
           | Some I \<Rightarrow>
               Inr (True,
                    s\<lparr>ios := AList.update i (I\<lparr>io_disconnect := Some user_data\<rparr>) (ios s)\<rparr>)))"

definition l_io_destroy :: "ptr \<Rightarrow> sys \<Rightarrow> fault + sys" where
  "l_io_destroy io s =
     (case io of
        None \<Rightarrow> Inr s
      | Some i \<Rightarrow>
          (case map_of (ios s) i of
             None \<Rightarrow> Inl Use_after_free
           | Some I \<Rightarrow> Inr (s\<lparr>ios := AList.delete i (ios s)\<rparr>)))"

subsection \<open>The Modbus library and the driver table\<close>

text \<open>
  A Modbus library function that is handed \<open>NULL\<close> fails with \<open>EINVAL\<close>; on a live context
  its return code and the value it leaves in \<open>errno\<close> are decided by the device and the
  network, so they are an argument (\<open>reply\<close>). What the library keeps inside a context is
  not visible to this file and is not modelled.
\<close>

definition with_ctx :: "ptr \<Rightarrow> int \<times> int \<Rightarrow> sys \<Rightarrow> fault + (int \<times> sys)" where
  "with_ctx ctx reply s =
     (case ctx of
        None \<Rightarrow> Inr (- 1, s\<lparr>errno := EINVAL\<rparr>)
      | Some c \<Rightarrow>
          if c \<in> ctxs s then Inr (fst reply, s\<lparr>errno := snd reply\<rparr>)
          else Inl Use_after_free)"

definition modbus_set_slave :: "ptr \<Rightarrow> int \<Rightarrow> int \<times> int \<Rightarrow> sys \<Rightarrow> fault + (int \<times> sys)" where
  "modbus_set_slave ctx slave reply s = with_ctx ctx reply s"

definition modbus_connect :: "ptr \<Rightarrow> int \<times> int \<Rightarrow> sys \<Rightarrow> fault + (int \<times> sys)" where
  "modbus_connect ctx reply s = with_ctx ctx reply s"

definition modbus_get_socket :: "ptr \<Rightarrow> int \<Rightarrow> sys \<Rightarrow> fault + (int \<times> sys)" where
  "modbus_get_socket ctx fd s = with_ctx ctx (fd, errno s) s"

definition modbus_close :: "ptr \<Rightarrow> sys \<Rightarrow> fault + sys" where
  "modbus_close ctx s =
     (case ctx of
        None \<Rightarrow> Inr s
      | Some c \<Rightarrow> if c \<in> ctxs s then Inr s else Inl Use_after_free)"

text \<open>
  Modelled from the spec: the \<open>create\<close> member of the driver table (defined in
  \<open>modbus-driver.c\<close>), \<open>create(url) -> handle\<close>. It yields a new context, or \<open>NULL\<close> with
  \<open>errno\<close> set to \<open>e\<close> when \<open>reply = Some e\<close>.
\<close>

definition driver_create :: "int option \<Rightarrow> sys \<Rightarrow> ptr \<times> sys" where
  "driver_create reply s =
     (case reply of
        Some e \<Rightarrow> (None, s\<lparr>errno := e\<rparr>)
      | None \<Rightarrow>
          (Some (next_addr s),
           s\<lparr>ctxs := insert (next_addr s) (ctxs s), next_addr := Suc (next_addr s)\<rparr>))"

text \<open>
  Modelled from the spec: the \<open>destroy\<close> member of the driver table (defined in
  \<open>modbus-driver.c\<close>), \<open>destroy(handle)\<close>: it releases the context. Calling it through a
  table that was never assigned is a call through a null function pointer.
\<close>

definition driver_destroy :: "ptr \<Rightarrow> sys \<Rightarrow> fault + sys" where
  "driver_destroy ctx s =
     (case connection_interface s of
        None \<Rightarrow> Inl Null_call
      | Some d \<Rightarrow>
          (case ctx of
             None \<Rightarrow> Inr s
           | Some c \<Rightarrow>
               if c \<in> ctxs s then Inr (s\<lparr>ctxs := ctxs s - {c}\<rparr>) else Inl Use_after_free))"

subsection \<open>The functions of the module\<close>

text \<open>What the world answers during one \<open>modbus_start\<close> and one \<open>attempt_connect\<close>.\<close>

record start_env =
  create_reply :: "int option"
  set_slave_reply :: "int \<times> int"
  timeout_created :: bool

record connect_env =
  connect_reply :: "int \<times> int"
  socket_fd :: int
  io_created :: bool

text \<open>
  A callback is an opaque function of the caller; calling it is recorded, and it is taken
  not to call back into this module.
\<close>

definition call_cb :: "ptr \<Rightarrow> (nat \<Rightarrow> ptr \<Rightarrow> cb_call) \<Rightarrow> ptr \<Rightarrow> sys \<Rightarrow> sys" where
  "call_cb cb kind user_data s =
     (case cb of
        None \<Rightarrow> s
      | Some f \<Rightarrow> s\<lparr>cb_calls := cb_calls s @ [kind f user_data]\<rparr>)"

definition on_disconnected :: "ptr \<Rightarrow> ptr \<Rightarrow> sys \<Rightarrow> fault + sys" where
  "on_disconnected io user_data s =
     then_do (modbus_close (modbus_ctx s) s) (\<lambda>s1.
       let s2 = call_cb (disconn_cb s1) Disconnected user_data s1 in
       then_do (l_io_destroy (modbus_io s2) s2) (\<lambda>s3.
         let s4 = s3\<lparr>modbus_io := None\<rparr> in
         l_timeout_modify (connect_to s4) RECONNECT_TIMEOUT s4))"

definition attempt_connect :: "ptr \<Rightarrow> ptr \<Rightarrow> connect_env \<Rightarrow> sys \<Rightarrow> fault + sys" where
  "attempt_connect to user_data env s =
     then_do (modbus_connect (modbus_ctx s) (connect_reply env) s) (\<lambda>(rc, s1).
       if rc < 0 then l_timeout_modify to RECONNECT_TIMEOUT s1
       else
         then_do (modbus_get_socket (modbus_ctx s1) (socket_fd env) s1) (\<lambda>(fd, s2).
           case l_io_new fd (io_created env) s2 of (io, s3) \<Rightarrow>
             let s4 = s3\<lparr>modbus_io := io\<rparr> in
             then_do (l_io_set_disconnect_handler (modbus_io s4) None s4) (\<lambda>(ok, s5).
               Inr (call_cb (conn_cb s5) Connected user_data s5))))"

definition modbus_start ::
  "string \<Rightarrow> int \<Rightarrow> ptr \<Rightarrow> ptr \<Rightarrow> ptr \<Rightarrow> start_env \<Rightarrow> sys \<Rightarrow> fault + (int \<times> sys)" where
  "modbus_start url slave_id connected_cb disconnected_cb user_data env s =
     (let sel = parse_url url in
      if sel \<noteq> TCP \<and> sel \<noteq> RTU then Inr (- EINVAL, s)
      else
        let s1 = s\<lparr>connection_interface := Some (if sel = TCP then tcp else rtu)\<rparr> in
        case driver_create (create_reply env) s1 of (ctx, s2) \<Rightarrow>
          let s3 = s2\<lparr>modbus_ctx := ctx\<rparr> in
          if modbus_ctx s3 = None then Inr (- errno s3, s3)
          else
            then_do (modbus_set_slave (modbus_ctx s3) slave_id (set_slave_reply env) s3)
              (\<lambda>(rc, s4).
                if rc < 0 then Inr (- errno s4, s4)
                else
                  let s5 = s4\<lparr>conn_cb := connected_cb, disconn_cb := disconnected_cb\<rparr> in
                  case l_timeout_create_ms (timeout_created env) 1 None s5 of (to, s6) \<Rightarrow>
                    Inr (0, s6\<lparr>connect_to := to\<rparr>)))"

definition modbus_stop :: "sys \<Rightarrow> fault + sys" where
  "modbus_stop s =
     then_do (if connect_to s \<noteq> None then l_timeout_remove (connect_to s) s else Inr s) (\<lambda>s1.
       then_do (if modbus_io s1 \<noteq> None then l_io_destroy (modbus_io s1) s1 else Inr s1) (\<lambda>s2.
         if modbus_ctx s2 \<noteq> None then driver_destroy (modbus_ctx s2) s2 else Inr s2))"

subsection \<open>The event loop calling back\<close>

text \<open>
  The loop calls the handler of a pending timeout when it expires, with the timeout and
  its stored \<open>user_data\<close>; the timeout is one-shot, so it is idle from then on. The loop
  calls the disconnect handler of a live watch when the descriptor is closed or fails, with
  the stored \<open>user_data\<close>. \<open>None\<close> means that the event cannot happen in that state.
\<close>

definition timeout_fires :: "nat \<Rightarrow> connect_env \<Rightarrow> sys \<Rightarrow> (fault + sys) option" where
  "timeout_fires t env s =
     (case map_of (timeouts s) t of
        None \<Rightarrow> None
      | Some T \<Rightarrow>
          (case t_armed T of
             None \<Rightarrow> None
           | Some ms \<Rightarrow>
               Some (attempt_connect (Some t) (t_user_data T) env
                      (s\<lparr>timeouts := AList.update t (T\<lparr>t_armed := None\<rparr>) (timeouts s)\<rparr>))))"

definition io_disconnects :: "nat \<Rightarrow> sys \<Rightarrow> (fault + sys) option" where
  "io_disconnects i s =
     (case map_of (ios s) i of
        None \<Rightarrow> None
      | Some I \<Rightarrow>
          (case io_disconnect I of
             None \<Rightarrow> None
           | Some user_data \<Rightarrow> Some (on_disconnected (Some i) user_data s)))"

text \<open>
  The states the module can be in: \<open>modbus_start\<close> and \<open>modbus_stop\<close> may be called at
  any time and in any order (neither checks anything about earlier calls), and the loop
  delivers the events that can happen. A call that faults yields no state.
\<close>

inductive reachable :: "sys \<Rightarrow> bool" where
  reach_init: "reachable sys0"
| reach_start:
    "reachable s \<Longrightarrow>
     modbus_start url slave_id connected_cb disconnected_cb user_data env s = Inr (rc, s') \<Longrightarrow>
     reachable s'"
| reach_timeout:
    "reachable s \<Longrightarrow> timeout_fires t env s = Some (Inr s') \<Longrightarrow> reachable s'"
| reach_disconnect:
    "reachable s \<Longrightarrow> io_disconnects i s = Some (Inr s') \<Longrightarrow> reachable s'"
| reach_stop:
    "reachable s \<Longrightarrow> modbus_stop s = Inr s' \<Longrightarrow> reachable s'"

text \<open>
  The same states when the caller starts the module only while no timeout and no watch of
  an earlier start is live, that is before the first \<open>modbus_start\<close>, after a
  \<open>modbus_start\<close> that created no timeout, or after a \<open>modbus_stop\<close>. Everything else is
  as in \<open>reachable\<close>.
\<close>

inductive orderly :: "sys \<Rightarrow> bool" where
  orderly_init: "orderly sys0"
| orderly_start:
    "orderly s \<Longrightarrow> timeouts s = [] \<Longrightarrow> ios s = [] \<Longrightarrow>
     modbus_start url slave_id connected_cb disconnected_cb user_data env s = Inr (rc, s') \<Longrightarrow>
     orderly s'"
| orderly_timeout:
    "orderly s \<Longrightarrow> timeout_fires t env s = Some (Inr s') \<Longrightarrow> orderly s'"
| orderly_disconnect:
    "orderly s \<Longrightarrow> io_disconnects i s = Some (Inr s') \<Longrightarrow> orderly s'"
| orderly_stop:
    "orderly s \<Longrightarrow> modbus_stop s = Inr s' \<Longrightarrow> orderly s'"

text \<open>Is the object behind each handle of the module live, and is a timeout pending?\<close>

definition timer_handle_live :: "sys \<Rightarrow> bool" where
  "timer_handle_live s =
     (case connect_to s of None \<Rightarrow> False | Some t \<Rightarrow> map_of (timeouts s) t \<noteq> None)"

definition watch_handle_live :: "sys \<Rightarrow> bool" where
  "watch_handle_live s =
     (case modbus_io s of None \<Rightarrow> False | Some i \<Rightarrow> map_of (ios s) i \<noteq> None)"

definition timer_pending :: "sys \<Rightarrow> bool" where
  "timer_pending s = list_ex (\<lambda>(t, T). t_armed T \<noteq> None) (timeouts s)"

text \<open>
  The shape of the live objects when the module is used in order: nothing is live, or the only
  timeout is the one \<open>connect_to\<close> points to and the only watch, if there is one, is the
  one \<open>modbus_io\<close> points to, and then the timeout is idle.
\<close>

definition lifecycle_inv :: "sys \<Rightarrow> bool" where
  "lifecycle_inv s \<longleftrightarrow>
     (timeouts s = [] \<and> ios s = []) \<or>
     (\<exists>t T. connect_to s = Some t \<and> timeouts s = [(t, T)] \<and>
        (ios s = [] \<or>
         (t_armed T = None \<and> (\<exists>i I. modbus_io s = Some i \<and> ios s = [(i, I)]))))"

section \<open>Scenarios\<close>

text \<open>
  A transport whose every read primitive answers with return code \<open>rc\<close>; a failing one
  leaves \<open>err\<close> in \<open>errno\<close>. Its coils read \<open>[1,0,1,0,0,0,0,0]\<close>.
\<close>

definition example_driver :: "int \<Rightarrow> int \<Rightarrow> modbus_driver" where
  "example_driver rc err =
     \<lparr>read_bool = (\<lambda>ctx a e. (rc, True, if rc < 0 then err else e)),
      read_byte = (\<lambda>ctx a e. (rc, [1, 0, 1, 0, 0, 0, 0, 0], if rc < 0 then err else e)),
      read_u16 = (\<lambda>ctx a e. (rc, 0xBEEF, if rc < 0 then err else e)),
      read_u32 = (\<lambda>ctx a e. (rc, 0xDEADBEEF, if rc < 0 then err else e)),
      read_u64 = (\<lambda>ctx a e. (rc, 0x0123456789ABCDEF, if rc < 0 then err else e))\<rparr>"

text \<open>A \<open>knot_value_type\<close> of sixteen bytes that holds \<open>0xFF\<close> everywhere.\<close>

definition dirty_out :: "byte list" where
  "dirty_out = replicate 16 0xFF"

text \<open>
  The world of the scenario of the specification: \<open>start("tcp://10.0.0.5:502", 17, ...)\<close>
  succeeds (\<open>start_ok\<close>); a slave identifier the Modbus library refuses with \<open>EINVAL\<close>
  (\<open>start_bad_slave\<close>); a connect that succeeds on descriptor 7 (\<open>connect_ok\<close>) and one
  that is refused with \<open>ECONNREFUSED = 111\<close> (\<open>connect_refused\<close>).
\<close>

definition start_ok :: start_env where
  "start_ok = \<lparr>create_reply = None, set_slave_reply = (0, 0), timeout_created = True\<rparr>"

definition start_bad_slave :: start_env where
  "start_bad_slave =
     \<lparr>create_reply = None, set_slave_reply = (- 1, 22), timeout_created = True\<rparr>"

definition connect_ok :: connect_env where
  "connect_ok = \<lparr>connect_reply = (0, 0), socket_fd = 7, io_created = True\<rparr>"

definition connect_refused :: connect_env where
  "connect_refused = \<lparr>connect_reply = (- 1, 111), socket_fd = - 1, io_created = True\<rparr>"

text \<open>
  The states the scenario goes through: after \<open>modbus_start\<close>, after the first connect
  succeeded, after the connection dropped; and \<open>started_state\<close> after \<open>modbus_stop\<close>.
\<close>

definition started_state :: sys where
  "started_state =
     \<lparr>connection_interface = Some tcp, connect_to = Some 2, modbus_io = None,
      modbus_ctx = Some 1, conn_cb = Some 100, disconn_cb = Some 200,
      timeouts = [(2, \<lparr>t_armed = Some 1, t_user_data = None\<rparr>)], ios = [], ctxs = {1},
      next_addr = 3, errno = 0, cb_calls = []\<rparr>"

definition connected_state :: sys where
  "connected_state =
     started_state\<lparr>modbus_io := Some 3,
       timeouts := [(2, \<lparr>t_armed = None, t_user_data = None\<rparr>)],
       ios := [(3, \<lparr>io_fd = 7, io_disconnect = Some None\<rparr>)],
       next_addr := 4, cb_calls := [Connected 100 None]\<rparr>"

definition dropped_state :: sys where
  "dropped_state =
     connected_state\<lparr>modbus_io := None,
       timeouts := [(2, \<lparr>t_armed = Some 5000, t_user_data = None\<rparr>)],
       ios := [], cb_calls := [Connected 100 None, Disconnected 200 None]\<rparr>"

definition stopped_state :: sys where
  "stopped_state = started_state\<lparr>timeouts := [], ctxs := {}\<rparr>"

text \<open>
  \<open>connected_state\<close> after a second \<open>modbus_start\<close>; after \<open>modbus_stop\<close>; and after
  \<open>modbus_stop\<close> followed by a new \<open>modbus_start\<close>.
\<close>

definition restarted_state :: sys where
  "restarted_state =
     connected_state\<lparr>connect_to := Some 5, modbus_ctx := Some 4,
       timeouts := [(2, \<lparr>t_armed = None, t_user_data = None\<rparr>),
                    (5, \<lparr>t_armed = Some 1, t_user_data = None\<rparr>)],
       ctxs := {1, 4}, next_addr := 6\<rparr>"

definition disconnected_by_stop_state :: sys where
  "disconnected_by_stop_state = connected_state\<lparr>timeouts := [], ios := [], ctxs := {}\<rparr>"

definition second_life_state :: sys where
  "second_life_state =
     disconnected_by_stop_state\<lparr>connect_to := Some 5, modbus_ctx := Some 4,
       timeouts := [(5, \<lparr>t_armed = Some 1, t_user_data = None\<rparr>)],
       ctxs := {4}, next_addr := 6\<rparr>"

section \<open>Properties of the Driver Selector\<close>

lemma strncmp_prefix:
  "NUL \<notin> set p \<Longrightarrow> strncmp s p (length p) = 0 \<longleftrightarrow> prefix p s"
proof (induction p arbitrary: s)
  case Nil
  then show ?case by simp
next
  case (Cons c p)
  then have c: "c \<noteq> NUL" and p: "NUL \<notin> set p" by auto
  show ?case
  proof (cases s)
    case Nil
    with c show ?thesis by (simp add: Let_def)
  next
    case (Cons d s')
    with c Cons.IH [OF p, of s'] show ?thesis by (auto simp: Let_def)
  qed
qed

lemma strncmp_TCP_PREFIX:
  "strncmp url TCP_PREFIX TCP_PREFIX_SIZE = 0 \<longleftrightarrow> prefix TCP_PREFIX url"
proof -
  have a: "NUL \<notin> set TCP_PREFIX" by (simp add: TCP_PREFIX_def NUL_def)
  have b: "length TCP_PREFIX = TCP_PREFIX_SIZE"
    by (simp add: TCP_PREFIX_def TCP_PREFIX_SIZE_def)
  show ?thesis using strncmp_prefix [OF a, of url] by (simp only: b)
qed

lemma strncmp_RTU_PREFIX:
  "strncmp url RTU_PREFIX RTU_PREFIX_SIZE = 0 \<longleftrightarrow> prefix RTU_PREFIX url"
proof -
  have a: "NUL \<notin> set RTU_PREFIX" by (simp add: RTU_PREFIX_def NUL_def)
  have b: "length RTU_PREFIX = RTU_PREFIX_SIZE"
    by (simp add: RTU_PREFIX_def RTU_PREFIX_SIZE_def)
  show ?thesis using strncmp_prefix [OF a, of url] by (simp only: b)
qed

lemma parse_url_by_prefix:
  "parse_url url =
     (if prefix TCP_PREFIX url then TCP else if prefix RTU_PREFIX url then RTU else - EINVAL)"
  by (simp only: parse_url_def strncmp_TCP_PREFIX strncmp_RTU_PREFIX)

lemma prefixes_exclusive: "\<not> (prefix TCP_PREFIX url \<and> prefix RTU_PREFIX url)"
  by (auto simp: TCP_PREFIX_def RTU_PREFIX_def prefix_def)

text \<open>
  Claim C2. \<open>parse_url\<close> returns \<open>TCP\<close> exactly for the strings that begin with
  \<open>tcp://\<close>, \<open>RTU\<close> exactly for those that begin with \<open>serial://\<close>, and \<open>-EINVAL\<close> for
  every other string, \<open>tcp\<close> without \<open>://\<close> among them. It is a function of the string
  alone.
\<close>

theorem parse_url_classifies:
  "(parse_url url = TCP \<longleftrightarrow> prefix ''tcp://'' url)
   \<and> (parse_url url = RTU \<longleftrightarrow> prefix ''serial://'' url)
   \<and> (parse_url url = - EINVAL \<longleftrightarrow> \<not> prefix ''tcp://'' url \<and> \<not> prefix ''serial://'' url)
   \<and> parse_url ''tcp'' = - EINVAL"
proof -
  have "\<not> prefix TCP_PREFIX ''tcp''" "\<not> prefix RTU_PREFIX ''tcp''"
    by (simp_all add: TCP_PREFIX_def RTU_PREFIX_def)
  then have "parse_url ''tcp'' = - EINVAL"
    by (simp only: parse_url_by_prefix if_False)
  then show ?thesis
    using prefixes_exclusive [of url] parse_url_by_prefix [of url]
    by (auto simp: TCP_def RTU_def EINVAL_def TCP_PREFIX_def RTU_PREFIX_def)
qed

text \<open>The classification at the two URLs of the specification and at two others.\<close>

theorem parse_url_classifies_witness:
  "parse_url ''tcp://10.0.0.5:502'' = TCP
   \<and> parse_url ''serial:///dev/ttyUSB0'' = RTU
   \<and> parse_url ''http://10.0.0.5'' = - EINVAL
   \<and> parse_url ''tcp'' = - EINVAL"
  using parse_url_classifies [of "''tcp://10.0.0.5:502''"]
    parse_url_classifies [of "''serial:///dev/ttyUSB0''"]
    parse_url_classifies [of "''http://10.0.0.5''"]
  by simp

section \<open>Properties of the Register Reader\<close>

lemma bit_pack_step:
  "bit (pack_step bs i v) n \<longleftrightarrow> bit v n \<or> (n < 8 \<and> i \<le> n \<and> bit (bs ! i) (n - i))"
  by (auto simp: pack_step_def bit_simps dest: bit_imp_le_length)

lemma bit_fold_pack_step:
  "bit (fold (pack_step bs) js v) n \<longleftrightarrow>
     bit v n \<or> (\<exists>i\<in>set js. n < 8 \<and> i \<le> n \<and> bit (bs ! i) (n - i))"
  by (induction js arbitrary: v) (auto simp: bit_pack_step)

lemma bit_coil: "b = 0 \<or> b = 1 \<Longrightarrow> bit (b :: byte) k \<longleftrightarrow> b = 1 \<and> k = 0"
  by (auto simp: bit_1_iff)

lemma bit_pack_coils:
  assumes "\<forall>k<8. bs ! k = 0 \<or> bs ! k = 1" and "i < 8"
  shows "bit (pack_coils bs 0) i \<longleftrightarrow> bs ! i = 1"
proof -
  have "bit (pack_coils bs 0) i \<longleftrightarrow> (\<exists>j\<in>{0..<8}. j \<le> i \<and> bit (bs ! j) (i - j))"
    using assms(2) by (simp add: pack_coils_def bit_fold_pack_step)
  also have "\<dots> \<longleftrightarrow> (\<exists>j\<in>{0..<8}. j \<le> i \<and> bs ! j = 1 \<and> i - j = 0)"
  proof (intro bex_cong refl conj_cong)
    fix j :: nat
    assume "j \<in> {0..<8}"
    with assms(1) have "bs ! j = 0 \<or> bs ! j = 1" by simp
    then show "bit (bs ! j) (i - j) \<longleftrightarrow> bs ! j = 1 \<and> i - j = 0"
      by (rule bit_coil)
  qed
  also have "\<dots> \<longleftrightarrow> bs ! i = 1"
    using assms(2) by auto
  finally show ?thesis .
qed

lemma pack_coils_example: "pack_coils [1, 0, 1, 0, 0, 0, 0, 0] 0 = 5"
  by (simp add: pack_coils_def pack_step_def upt_rec)

lemma length_le_bytes: "length (le_bytes n w) = n"
  by (simp add: le_bytes_def)

lemma read_switch_byte:
  "read_byte ci ctx reg_addr e = (rc, byte_tmp, e') \<Longrightarrow>
   read_switch ci ctx e reg_addr TYPE_BYTE =
     \<lparr>sw_rc = rc, sw_tmp = pack_coils byte_tmp 0 # replicate 7 0, sw_errno = e',
      sw_calls = [Call_read_byte ctx reg_addr]\<rparr>"
  by (simp add: read_switch_def Let_def TYPE_BYTE_def TYPE_BOOL_def store_member_def
      eval_nat_numeral)

lemma length_sw_tmp: "length (sw_tmp (read_switch ci ctx e reg_addr bit_offset)) = 8"
  by (simp add: read_switch_def Let_def store_member_def length_le_bytes split: prod.splits)

lemma store_member_nth:
  "length bs \<le> k \<Longrightarrow> length bs \<le> length tmp \<Longrightarrow> store_member bs tmp ! k = tmp ! k"
  by (simp add: store_member_def nth_append)

lemma sw_tmp_upper_zero:
  assumes "0 \<le> sw_rc (read_switch ci ctx e reg_addr bit_offset)"
    and "max 1 (nat bit_offset div 8) \<le> k" and "k < 8"
  shows "sw_tmp (read_switch ci ctx e reg_addr bit_offset) ! k = 0"
  using assms
  by (auto simp: read_switch_def Let_def store_member_nth length_le_bytes EINVAL_def
      TYPE_BOOL_def TYPE_BYTE_def TYPE_U16_def TYPE_U32_def TYPE_U64_def
      split: prod.splits if_splits)

lemma example_driver_u16:
  "read_switch (example_driver rc err) ctx e reg_addr TYPE_U16 =
     \<lparr>sw_rc = rc, sw_tmp = [0xEF, 0xBE, 0, 0, 0, 0, 0, 0],
      sw_errno = (if rc < 0 then err else e), sw_calls = [Call_read_u16 ctx reg_addr]\<rparr>"
proof -
  have "replicate 6 (0 :: byte) = [0, 0, 0, 0, 0, 0]"
    by (simp add: eval_nat_numeral)
  then show ?thesis
    by (simp add: read_switch_def Let_def example_driver_def store_member_def le_bytes_def
        TYPE_BOOL_def TYPE_BYTE_def TYPE_U16_def upt_rec)
qed

text \<open>
  Claim C1. With the byte selector, when the eight readings the byte-read primitive leaves
  in \<open>byte_tmp\<close> are coil values (each 0 or 1), bit \<open>i\<close> of the byte that
  \<open>modbus_read_data\<close> synthesizes is set exactly when reading \<open>i\<close> is 1; the byte is the
  first byte of \<open>out\<close> when the read succeeds; the readings \<open>[1,0,1,0,0,0,0,0]\<close> give 5.
\<close>

theorem read_byte_packs_coils:
  assumes "read_byte ci ctx reg_addr e = (rc, byte_tmp, e')"
    and "length byte_tmp = 8"
    and "set byte_tmp \<subseteq> {0, 1}"
  shows "(\<forall>i<8. bit (hd (sw_tmp (read_switch ci ctx e reg_addr TYPE_BYTE))) i
            \<longleftrightarrow> byte_tmp ! i = 1)
       \<and> (0 \<le> rc \<longrightarrow>
            hd (rd_out (modbus_read_data ci ctx e reg_addr TYPE_BYTE out))
              = hd (sw_tmp (read_switch ci ctx e reg_addr TYPE_BYTE)))
       \<and> (byte_tmp = [1, 0, 1, 0, 0, 0, 0, 0] \<longrightarrow>
            hd (sw_tmp (read_switch ci ctx e reg_addr TYPE_BYTE)) = 5)"
proof -
  have coils: "\<forall>k<8. byte_tmp ! k = 0 \<or> byte_tmp ! k = 1"
  proof (intro allI impI)
    fix k :: nat
    assume "k < 8"
    with assms(2) have "byte_tmp ! k \<in> set byte_tmp" by simp
    with assms(3) show "byte_tmp ! k = 0 \<or> byte_tmp ! k = 1" by auto
  qed
  have tmp: "hd (sw_tmp (read_switch ci ctx e reg_addr TYPE_BYTE)) = pack_coils byte_tmp 0"
    by (simp add: read_switch_byte [OF assms(1)])
  have "0 \<le> rc \<Longrightarrow>
      hd (rd_out (modbus_read_data ci ctx e reg_addr TYPE_BYTE out)) = pack_coils byte_tmp 0"
    by (simp add: modbus_read_data_def read_switch_byte [OF assms(1)])
  with tmp bit_pack_coils [OF coils] pack_coils_example show ?thesis by simp
qed

text \<open>The readings \<open>[1,0,1,0,0,0,0,0]\<close> of the example transport, read into \<open>dirty_out\<close>.\<close>

theorem read_byte_packs_coils_witness:
  "hd (rd_out (modbus_read_data (example_driver 0 0) (Some 1) 0 40 TYPE_BYTE dirty_out)) = 5
   \<and> bit (hd (sw_tmp (read_switch (example_driver 0 0) (Some 1) 0 40 TYPE_BYTE))) 2
   \<and> \<not> bit (hd (sw_tmp (read_switch (example_driver 0 0) (Some 1) 0 40 TYPE_BYTE))) 1"
proof -
  have a: "read_byte (example_driver 0 0) (Some 1) 40 0 = (0, [1, 0, 1, 0, 0, 0, 0, 0], 0)"
    by (simp add: example_driver_def)
  have b: "length [1, 0, 1, 0, 0, 0, 0, 0 :: byte] = 8" by simp
  have c: "set [1, 0, 1, 0, 0, 0, 0, 0 :: byte] \<subseteq> {0, 1}" by simp
  note t = read_byte_packs_coils [OF a b c, of dirty_out]
  from t have bits: "\<And>i. i < 8 \<Longrightarrow>
      bit (hd (sw_tmp (read_switch (example_driver 0 0) (Some 1) 0 40 TYPE_BYTE))) i
        \<longleftrightarrow> [1, 0, 1, 0, 0, 0, 0, 0 :: byte] ! i = 1"
    by blast
  from t have five: "hd (sw_tmp (read_switch (example_driver 0 0) (Some 1) 0 40 TYPE_BYTE)) = 5"
    by blast
  from t have "hd (rd_out (modbus_read_data (example_driver 0 0) (Some 1) 0 40 TYPE_BYTE dirty_out))
      = hd (sw_tmp (read_switch (example_driver 0 0) (Some 1) 0 40 TYPE_BYTE))"
    by simp
  with five bits [of 2] bits [of 1] show ?thesis by simp
qed

text \<open>
  Claim C3. For a width selector outside \<open>{1, 8, 16, 32, 64}\<close> the function calls no read
  primitive, but what it returns is \<open>-errno\<close> with the value \<open>errno\<close> had on entry, not
  \<open>-EINVAL\<close>: with selector 2 and \<open>errno = 0\<close> it returns 0 and leaves \<open>out\<close> alone.
\<close>

theorem read_unknown_width_returns_errno:
  "rd_rc (modbus_read_data ci ctx e reg_addr 2 out) = - e
   \<and> rd_rc (modbus_read_data ci ctx 0 reg_addr 2 out) = 0
   \<and> rd_rc (modbus_read_data ci ctx 0 reg_addr 2 out) \<noteq> - EINVAL
   \<and> rd_calls (modbus_read_data ci ctx 0 reg_addr 2 out) = []
   \<and> rd_out (modbus_read_data ci ctx 0 reg_addr 2 out) = out"
  by (simp add: modbus_read_data_def read_switch_def Let_def EINVAL_def
      TYPE_BOOL_def TYPE_BYTE_def TYPE_U16_def TYPE_U32_def TYPE_U64_def)

text \<open>
  Claim C9. Whenever \<open>modbus_read_data\<close> returns a negative value, the object behind
  \<open>out\<close> is what it was before the call.
\<close>

theorem read_error_keeps_out:
  "rd_rc (modbus_read_data ci ctx e reg_addr bit_offset out) < 0 \<Longrightarrow>
   rd_out (modbus_read_data ci ctx e reg_addr bit_offset out) = out"
  by (simp add: modbus_read_data_def Let_def split: if_splits)

text \<open>A 16-bit read that times out (\<open>ETIMEDOUT = 110\<close>) returns -110 and keeps \<open>out\<close>.\<close>

theorem read_error_keeps_out_witness:
  "rd_rc (modbus_read_data (example_driver (- 1) 110) (Some 1) 0 40 TYPE_U16 dirty_out) = - 110
   \<and> rd_out (modbus_read_data (example_driver (- 1) 110) (Some 1) 0 40 TYPE_U16 dirty_out)
       = dirty_out"
proof -
  have a: "rd_rc (modbus_read_data (example_driver (- 1) 110) (Some 1) 0 40 TYPE_U16 dirty_out)
             = - 110"
    by (simp add: modbus_read_data_def example_driver_u16)
  then have "rd_rc (modbus_read_data (example_driver (- 1) 110) (Some 1) 0 40 TYPE_U16 dirty_out)
               < 0"
    by simp
  from read_error_keeps_out [OF this] a show ?thesis by simp
qed

text \<open>
  Claim C10, as stated, fails: \<open>memcpy\<close> copies \<open>sizeof(tmp)\<close>, eight bytes, so in an
  object of sixteen bytes behind \<open>out\<close> the bytes after the eighth keep what they held.
  After a successful 16-bit read into \<open>dirty_out\<close>, byte 8 is still \<open>0xFF\<close>.
\<close>

theorem read_success_keeps_tail:
  "rd_rc (modbus_read_data (example_driver 1 0) (Some 1) 0 40 TYPE_U16 dirty_out) = 1
   \<and> length (rd_out (modbus_read_data (example_driver 1 0) (Some 1) 0 40 TYPE_U16 dirty_out))
       = 16
   \<and> rd_out (modbus_read_data (example_driver 1 0) (Some 1) 0 40 TYPE_U16 dirty_out) ! 8
       = 0xFF"
  by (simp add: modbus_read_data_def example_driver_u16 dirty_out_def nth_append)

text \<open>
  Claim C10, amended. Whenever the read succeeds, that is the \<open>switch\<close> leaves a return
  code that is not negative, \<open>modbus_read_data\<close> returns that code and the first eight
  bytes of the object behind \<open>out\<close> are the bytes of the temporary union: every byte from
  the width of the selected member (one byte for bool and byte, two for u16, four for u32)
  up to the eighth is zero. The bytes of that object after the eighth are left as they
  were.
\<close>

theorem read_success_overwrites_out:
  assumes "0 \<le> sw_rc (read_switch ci ctx e reg_addr bit_offset)"
  shows "rd_rc (modbus_read_data ci ctx e reg_addr bit_offset out)
           = sw_rc (read_switch ci ctx e reg_addr bit_offset)
       \<and> take 8 (rd_out (modbus_read_data ci ctx e reg_addr bit_offset out))
           = sw_tmp (read_switch ci ctx e reg_addr bit_offset)
       \<and> drop 8 (rd_out (modbus_read_data ci ctx e reg_addr bit_offset out)) = drop 8 out
       \<and> (\<forall>k. max 1 (nat bit_offset div 8) \<le> k \<and> k < 8 \<longrightarrow>
            rd_out (modbus_read_data ci ctx e reg_addr bit_offset out) ! k = 0)"
  using assms sw_tmp_upper_zero [OF assms] length_sw_tmp [of ci ctx e reg_addr bit_offset]
  by (simp add: modbus_read_data_def Let_def nth_append)

text \<open>A 16-bit read of \<open>0xBEEF\<close> into \<open>dirty_out\<close>: bytes 2 to 7 become zero.\<close>

theorem read_success_overwrites_out_witness:
  "rd_rc (modbus_read_data (example_driver 1 0) (Some 1) 0 40 TYPE_U16 dirty_out) = 1
   \<and> take 8 (rd_out (modbus_read_data (example_driver 1 0) (Some 1) 0 40 TYPE_U16 dirty_out))
       = [0xEF, 0xBE, 0, 0, 0, 0, 0, 0]
   \<and> drop 8 (rd_out (modbus_read_data (example_driver 1 0) (Some 1) 0 40 TYPE_U16 dirty_out))
       = replicate 8 0xFF
   \<and> rd_out (modbus_read_data (example_driver 1 0) (Some 1) 0 40 TYPE_U16 dirty_out) ! 2 = 0"
proof -
  have a: "0 \<le> sw_rc (read_switch (example_driver 1 0) (Some 1) 0 40 TYPE_U16)"
    by (simp add: example_driver_u16)
  note t = read_success_overwrites_out [OF a, of dirty_out]
  have k: "max 1 (nat TYPE_U16 div 8) \<le> 2 \<and> (2 :: nat) < 8"
    by (simp add: TYPE_U16_def)
  from t have "\<forall>k. max 1 (nat TYPE_U16 div 8) \<le> k \<and> k < 8 \<longrightarrow>
      rd_out (modbus_read_data (example_driver 1 0) (Some 1) 0 40 TYPE_U16 dirty_out) ! k = 0"
    by blast
  with k have z: "rd_out (modbus_read_data (example_driver 1 0) (Some 1) 0 40 TYPE_U16 dirty_out) ! 2 = 0"
    by blast
  from t have "rd_rc (modbus_read_data (example_driver 1 0) (Some 1) 0 40 TYPE_U16 dirty_out) = 1
     \<and> take 8 (rd_out (modbus_read_data (example_driver 1 0) (Some 1) 0 40 TYPE_U16 dirty_out))
         = [0xEF, 0xBE, 0, 0, 0, 0, 0, 0]
     \<and> drop 8 (rd_out (modbus_read_data (example_driver 1 0) (Some 1) 0 40 TYPE_U16 dirty_out))
         = replicate 8 0xFF"
    by (simp add: example_driver_u16 dirty_out_def)
  with z show ?thesis by simp
qed

section \<open>Properties of the Connection Manager\<close>

lemmas lib_defs = l_timeout_create_ms_def l_timeout_modify_def l_timeout_remove_def
  l_io_new_def l_io_set_disconnect_handler_def l_io_destroy_def with_ctx_def
  modbus_set_slave_def modbus_connect_def modbus_get_socket_def modbus_close_def
  driver_create_def driver_destroy_def call_cb_def then_do_def Let_def

subsection \<open>The scenario, step by step\<close>

lemma parse_url_example: "parse_url ''tcp://10.0.0.5:502'' = TCP"
  by code_simp

lemma start_example:
  "modbus_start ''tcp://10.0.0.5:502'' 17 (Some 100) (Some 200) (Some 300) start_ok sys0
     = Inr (0, started_state)"
  by (simp add: modbus_start_def lib_defs sys0_def parse_url_example TCP_def RTU_def
      start_ok_def started_state_def)

lemma connect_example: "timeout_fires 2 connect_ok started_state = Some (Inr connected_state)"
  by (simp add: timeout_fires_def attempt_connect_def lib_defs connect_ok_def
      started_state_def connected_state_def)

lemma drop_example: "io_disconnects 3 connected_state = Some (Inr dropped_state)"
  by (simp add: io_disconnects_def on_disconnected_def lib_defs RECONNECT_TIMEOUT_def
      started_state_def connected_state_def dropped_state_def)

lemma stop_example: "modbus_stop started_state = Inr stopped_state"
  by (simp add: modbus_stop_def lib_defs started_state_def stopped_state_def)

lemma restart_example:
  "modbus_start ''tcp://10.0.0.5:502'' 17 (Some 100) (Some 200) (Some 300) start_ok
     connected_state = Inr (0, restarted_state)"
  by (simp add: modbus_start_def lib_defs parse_url_example TCP_def RTU_def start_ok_def
      started_state_def connected_state_def restarted_state_def insert_commute)

lemma stop_connected_example: "modbus_stop connected_state = Inr disconnected_by_stop_state"
  by (simp add: modbus_stop_def lib_defs started_state_def connected_state_def
      disconnected_by_stop_state_def)

lemma second_life_example:
  "modbus_start ''tcp://10.0.0.5:502'' 17 (Some 100) (Some 200) (Some 300) start_ok
     disconnected_by_stop_state = Inr (0, second_life_state)"
  by (simp add: modbus_start_def lib_defs parse_url_example TCP_def RTU_def start_ok_def
      started_state_def connected_state_def disconnected_by_stop_state_def
      second_life_state_def)

lemma orderly_reachable: "orderly s \<Longrightarrow> reachable s"
  by (induction rule: orderly.induct) (auto intro: reachable.intros)

lemma orderly_connected: "orderly connected_state"
proof -
  have "orderly started_state"
    using orderly_start [OF orderly_init _ _ start_example] by (simp add: sys0_def)
  then show ?thesis by (rule orderly_timeout [OF _ connect_example])
qed

lemma orderly_second_life: "orderly second_life_state"
proof -
  have "orderly disconnected_by_stop_state"
    by (rule orderly_stop [OF orderly_connected stop_connected_example])
  then show ?thesis
    using orderly_start [OF _ _ _ second_life_example]
    by (simp add: disconnected_by_stop_state_def)
qed

subsection \<open>\<open>modbus_stop\<close> and \<open>modbus_start\<close>\<close>

text \<open>
  Claim C4. \<open>modbus_stop\<close> before any \<open>modbus_start\<close> changes nothing. After a
  \<open>modbus_start\<close>, the first \<open>modbus_stop\<close> releases the timeout and the context but
  leaves \<open>connect_to\<close> and \<open>modbus_ctx\<close> pointing at them, so a second \<open>modbus_stop\<close>
  hands the released timeout to \<open>l_timeout_remove\<close>.
\<close>

theorem stop_twice_faults:
  "modbus_stop sys0 = Inr sys0
   \<and> modbus_start ''tcp://10.0.0.5:502'' 17 (Some 100) (Some 200) (Some 300) start_ok sys0
       = Inr (0, started_state)
   \<and> modbus_stop started_state = Inr stopped_state
   \<and> connect_to stopped_state = Some 2 \<and> map_of (timeouts stopped_state) 2 = None
   \<and> modbus_stop stopped_state = Inl Use_after_free"
proof -
  have "modbus_stop sys0 = Inr sys0"
    by (simp add: modbus_stop_def then_do_def sys0_def)
  moreover have "modbus_stop stopped_state = Inl Use_after_free"
    by (simp add: modbus_stop_def lib_defs started_state_def stopped_state_def)
  moreover have "connect_to stopped_state = Some 2 \<and> map_of (timeouts stopped_state) 2 = None"
    by (simp add: started_state_def stopped_state_def)
  ultimately show ?thesis using start_example stop_example by simp
qed

text \<open>
  Claim C5. \<open>modbus_start\<close> does not keep its \<open>user_data\<close>: started with
  \<open>user_data = 300\<close>, the module calls the connected callback and then the disconnected
  callback with \<open>NULL\<close>.
\<close>

theorem start_drops_user_data:
  "modbus_start ''tcp://10.0.0.5:502'' 17 (Some 100) (Some 200) (Some 300) start_ok sys0
     = Inr (0, started_state)
   \<and> timeout_fires 2 connect_ok started_state = Some (Inr connected_state)
   \<and> cb_calls connected_state = [Connected 100 None]
   \<and> io_disconnects 3 connected_state = Some (Inr dropped_state)
   \<and> cb_calls dropped_state = [Connected 100 None, Disconnected 200 None]"
  using start_example connect_example drop_example
  by (simp add: connected_state_def dropped_state_def)

text \<open>
  Claim C6. When \<open>modbus_set_slave\<close> fails, \<open>modbus_start\<close> returns \<open>-errno\<close> at once,
  and the context it has just created stays allocated, with \<open>modbus_ctx\<close> pointing to it.
\<close>

theorem start_bad_slave_keeps_ctx:
  "modbus_start ''tcp://10.0.0.5:502'' 248 (Some 100) (Some 200) (Some 300) start_bad_slave sys0
     = Inr (- EINVAL,
            sys0\<lparr>connection_interface := Some tcp, modbus_ctx := Some 1, ctxs := {1},
                 next_addr := 2, errno := EINVAL\<rparr>)"
  by (simp add: modbus_start_def lib_defs sys0_def parse_url_example TCP_def RTU_def
      EINVAL_def start_bad_slave_def)

subsection \<open>The timeout and the watch\<close>

lemma inv_init: "lifecycle_inv sys0"
  by (simp add: lifecycle_inv_def sys0_def)

lemma inv_start:
  assumes "timeouts s = []" and "ios s = []"
    and "modbus_start url slave_id ccb dcb ud env s = Inr (rc, s')"
  shows "lifecycle_inv s'"
  using assms
  by (auto simp: modbus_start_def lib_defs lifecycle_inv_def
      split: if_splits option.splits prod.splits sum.splits)

lemma inv_timeout:
  assumes "lifecycle_inv s" and "timeout_fires t env s = Some (Inr s')"
  shows "lifecycle_inv s'"
proof -
  from assms(2) obtain T ms where T: "map_of (timeouts s) t = Some T" "t_armed T = Some ms"
    and a: "attempt_connect (Some t) (t_user_data T) env
              (s\<lparr>timeouts := AList.update t (T\<lparr>t_armed := None\<rparr>) (timeouts s)\<rparr>) = Inr s'"
    by (auto simp: timeout_fires_def split: option.splits)
  from assms(1) T have e: "connect_to s = Some t" "timeouts s = [(t, T)]" "ios s = []"
    by (auto simp: lifecycle_inv_def split: if_splits)
  from a e show ?thesis
    by (auto simp: attempt_connect_def lib_defs lifecycle_inv_def
        split: if_splits option.splits prod.splits sum.splits)
qed

lemma inv_disconnect:
  assumes "lifecycle_inv s" and "io_disconnects i s = Some (Inr s')"
  shows "lifecycle_inv s'"
proof -
  from assms(2) obtain I ud where I: "map_of (ios s) i = Some I"
    and a: "on_disconnected (Some i) ud s = Inr s'"
    by (auto simp: io_disconnects_def split: option.splits)
  from assms(1) I obtain t T where e: "connect_to s = Some t" "timeouts s = [(t, T)]"
    "modbus_io s = Some i" "ios s = [(i, I)]"
    by (auto simp: lifecycle_inv_def split: if_splits)
  from a e show ?thesis
    by (auto simp: on_disconnected_def lib_defs lifecycle_inv_def
        split: if_splits option.splits prod.splits sum.splits)
qed

lemma inv_stop:
  assumes "lifecycle_inv s" and "modbus_stop s = Inr s'"
  shows "lifecycle_inv s'"
proof -
  from assms have "timeouts s' = [] \<and> ios s' = []"
    by (auto simp: modbus_stop_def lib_defs lifecycle_inv_def
        split: if_splits option.splits prod.splits sum.splits)
  then show ?thesis by (simp add: lifecycle_inv_def)
qed

lemma orderly_inv: "orderly s \<Longrightarrow> lifecycle_inv s"
proof (induction rule: orderly.induct)
  case orderly_init
  show ?case by (rule inv_init)
next
  case (orderly_start s url slave_id connected_cb disconnected_cb user_data env rc s')
  then show ?case by (blast intro: inv_start)
next
  case (orderly_timeout s t env s')
  then show ?case by (blast intro: inv_timeout)
next
  case (orderly_disconnect s i s')
  then show ?case by (blast intro: inv_disconnect)
next
  case (orderly_stop s s')
  then show ?case by (blast intro: inv_stop)
qed

text \<open>
  Claim C7, as stated, fails in two ways. Once the first connect has succeeded, the
  timeout behind \<open>connect_to\<close> and the watch behind \<open>modbus_io\<close> are both live, the
  timeout idle. And \<open>modbus_start\<close> accepts a second call in that state: it creates a
  second timeout, pending, beside the live watch and the first timeout.
\<close>

theorem timer_and_watch_both_live:
  "reachable connected_state \<and> timer_handle_live connected_state
   \<and> watch_handle_live connected_state
   \<and> reachable restarted_state \<and> timer_handle_live restarted_state
   \<and> watch_handle_live restarted_state \<and> timer_pending restarted_state
   \<and> length (timeouts restarted_state) = 2"
proof -
  have c: "reachable connected_state"
    by (rule orderly_reachable [OF orderly_connected])
  have r: "reachable restarted_state"
    by (rule reach_start [OF c restart_example])
  from c r show ?thesis
    by (simp add: timer_handle_live_def watch_handle_live_def timer_pending_def
        connected_state_def started_state_def restarted_state_def)
qed

text \<open>
  Claim C7, amended. In every state reached by \<open>modbus_start\<close>, timer expiries running
  \<open>attempt_connect\<close>, disconnect notifications running \<open>on_disconnected\<close> and
  \<open>modbus_stop\<close>, in any order and through any number of stops and new starts, provided
  only that \<open>modbus_start\<close> is not called while a timeout or a watch of an earlier start is
  live: no timeout is pending while a watch is live; there is at most one timeout, the one
  \<open>connect_to\<close> points to, and at most one watch, the one \<open>modbus_io\<close> points to; and
  while the watch is live the timeout is live too, idle.
\<close>

theorem pending_timer_excludes_watch:
  assumes "orderly s"
  shows "\<not> (timer_pending s \<and> ios s \<noteq> [])
       \<and> length (timeouts s) \<le> 1 \<and> (\<forall>(t, T)\<in>set (timeouts s). connect_to s = Some t)
       \<and> length (ios s) \<le> 1 \<and> (\<forall>(i, I)\<in>set (ios s). modbus_io s = Some i)
       \<and> (ios s \<noteq> [] \<longrightarrow> timer_handle_live s \<and> watch_handle_live s)"
  using orderly_inv [OF assms]
  by (auto simp: lifecycle_inv_def timer_pending_def timer_handle_live_def
      watch_handle_live_def)

text \<open>
  The connected state of the scenario: the watch is live and no timeout is pending. The
  state after a stop and a new start: the new timeout is pending and no watch is live.
\<close>

theorem pending_timer_excludes_watch_witness:
  "orderly connected_state \<and> ios connected_state \<noteq> [] \<and> \<not> timer_pending connected_state
   \<and> timer_handle_live connected_state \<and> watch_handle_live connected_state
   \<and> orderly second_life_state \<and> timer_pending second_life_state
   \<and> ios second_life_state = []"
proof -
  have "ios connected_state \<noteq> []"
    by (simp add: connected_state_def)
  moreover have "timer_pending second_life_state"
    by (simp add: timer_pending_def second_life_state_def)
  ultimately show ?thesis
    using pending_timer_excludes_watch [OF orderly_connected]
      pending_timer_excludes_watch [OF orderly_second_life]
      orderly_connected orderly_second_life
    by blast
qed

text \<open>
  Claim C8. When the connect fails inside \<open>attempt_connect\<close>, the timeout that fired is
  pending again in \<open>RECONNECT_TIMEOUT\<close> seconds, no callback is called, and nothing else of
  the state changes but \<open>errno\<close>, which the failed connect has set.
\<close>

theorem failed_connect_rearms:
  assumes "modbus_connect (modbus_ctx s) (connect_reply env) s = Inr (rc, s1)" and "rc < 0"
    and "map_of (timeouts s) t = Some T"
  shows "attempt_connect (Some t) user_data env s =
           Inr (s\<lparr>errno := errno s1,
                  timeouts := AList.update t (T\<lparr>t_armed := Some (1000 * RECONNECT_TIMEOUT)\<rparr>)
                                (timeouts s)\<rparr>)"
  using assms
  by (auto simp: attempt_connect_def modbus_connect_def with_ctx_def then_do_def
      l_timeout_modify_def split: option.splits if_splits)

text \<open>A refused connect in the started state: the timeout is pending in 5000 ms.\<close>

theorem failed_connect_rearms_witness:
  "modbus_connect (modbus_ctx started_state) (connect_reply connect_refused) started_state
     = Inr (- 1, started_state\<lparr>errno := 111\<rparr>)
   \<and> attempt_connect (Some 2) None connect_refused started_state
     = Inr (started_state\<lparr>errno := 111,
              timeouts := [(2, \<lparr>t_armed = Some 5000, t_user_data = None\<rparr>)]\<rparr>)"
proof -
  have a: "modbus_connect (modbus_ctx started_state) (connect_reply connect_refused)
             started_state = Inr (- 1, started_state\<lparr>errno := 111\<rparr>)"
    by (simp add: modbus_connect_def with_ctx_def started_state_def connect_refused_def)
  have b: "map_of (timeouts started_state) 2 = Some \<lparr>t_armed = Some 1, t_user_data = None\<rparr>"
    by (simp add: started_state_def)
  show ?thesis
    using a failed_connect_rearms [OF a _ b, of None]
    by (simp add: started_state_def RECONNECT_TIMEOUT_def)
qed

end
